theory Spec2Isabelle
  imports Main "HOL-Library.Sublist"
begin

section \<open>Data model (types.ts)\<close>

text \<open>
  Source text, names and messages are \<open>string\<close>s (lists of 8-bit characters): the
  development covers ASCII programs; the one non-ASCII character of the sources (the arrow
  of the \<open>[input]\<close> log line) is written as its UTF-8 bytes.

  \<open>jsval\<close> is the part of JavaScript's values that the runtime inspects: the values that
  \<open>typeof\<close>, \<open>JSON.stringify\<close> and \<open>String\<close> tell apart.
  \<^item> \<open>JNum i\<close> is the number \<open>i\<close>, for a safe integer \<open>i\<close> (no floating point);
    \<open>JBigInt i\<close> is the BigInt \<open>i\<close>.
  \<^item> \<open>JObj\<close> is a plain object: its own enumerable properties in the order of
    \<open>Object.keys\<close>, each name once; no getter and no \<open>toJSON\<close> method.
  \<^item> \<open>JFunction src\<close> is a function, with the text \<open>String(f)\<close> returns (a method of
    the tracer too, if the program passes one around).
  \<^item> \<open>JError name message\<close> is an \<open>Error\<close> object, which has no enumerable property.
  \<^item> \<open>JCyclic text message\<close> is a reference back to an object or array that encloses
    it: the object graph has a cycle there. \<open>text\<close> is what \<open>String\<close> gives for it
    at that place, \<open>message\<close> the message of the \<open>TypeError\<close> that
    \<open>JSON.stringify\<close> raises when it comes to it.
\<close>

datatype jsval =
    JUndefined
  | JNull
  | JBool bool
  | JNum int
  | JNaN
  | JBigInt int
  | JStr string
  | JArr "jsval list"
  | JObj "(string \<times> jsval) list"
  | JFunction string
  | JError string string
  | JCyclic string string

text \<open>
  What a thrown value is to the code that catches it here: the driver only reads
  \<open>e.message\<close>. Reading a property of \<open>null\<close> or \<open>undefined\<close> raises a
  \<open>TypeError\<close>; of any other value it gives the message (a string) or \<open>undefined\<close>
  (\<open>None\<close>). A message that is neither is outside the model.
\<close>

datatype exn = ExnNull | ExnUndefined | ExnValue "string option"

text \<open>\<open>ConsoleLog.type\<close> is \<open>'log' | 'error' | 'warn'\<close>.\<close>

datatype log_type = Tlog | Terror | Twarn

record ConsoleLog =
  ltype :: log_type
  message :: string

text \<open>
  \<open>ExecutionStep\<close>: the optional fields \<open>isError?\<close> and \<open>errorMessage?\<close> are
  \<open>None\<close> when the property is absent (or \<open>undefined\<close>).
\<close>

record ExecutionStep =
  line :: int
  variables :: jsval
  callStack :: "string list"
  consoleOutput :: "ConsoleLog list"
  isError :: "bool option"
  errorMessage :: "string option"

type_synonym Timeline = "ExecutionStep list"

section \<open>JavaScript built-ins used by the runtime\<close>

text \<open>Decimal rendering of a number, as template literals and \<open>String\<close> give it.\<close>

fun string_of_nat :: "nat \<Rightarrow> string" where
  "string_of_nat n =
     (if n < 10 then [''0123456789'' ! n]
      else string_of_nat (n div 10) @ [''0123456789'' ! (n mod 10)])"

declare string_of_nat.simps [simp del]

definition string_of_int :: "int \<Rightarrow> string" where
  "string_of_int i = (if i < 0 then CHR ''-'' # string_of_nat (nat (- i)) else string_of_nat (nat i))"

text \<open>
  The text of a number. Only the safe integers are numbers of the model; what \<open>String\<close>
  gives for a larger one (an exponent, rounded digits) is not specified here.
\<close>

definition safe_integer :: "int \<Rightarrow> bool" where
  "safe_integer i = (\<bar>i\<bar> \<le> 9007199254740991)"

definition number_text :: "int \<Rightarrow> string" where
  "number_text i = (if safe_integer i then string_of_int i else undefined)"

text \<open>The remainder \<open>a % b\<close> for \<open>b \<noteq> 0\<close>: it takes the sign of the dividend.\<close>

definition js_rem :: "int \<Rightarrow> int \<Rightarrow> int" where
  "js_rem a b = (if a < 0 then - ((- a) mod \<bar>b\<bar>) else a mod \<bar>b\<bar>)"

text \<open>\<open>Array.prototype.join\<close> on strings.\<close>

fun join :: "string \<Rightarrow> string list \<Rightarrow> string" where
  "join sep [] = []"
| "join sep [x] = x"
| "join sep (x # y # ys) = x @ sep @ join sep (y # ys)"

text \<open>
  \<open>JSON.stringify\<close> of a string: the quoted text with the escapes of ECMA-262
  (QuoteJSONString) for the quote, the backslash and the control characters.
\<close>

definition hex_digit :: "nat \<Rightarrow> char" where
  "hex_digit d = ''0123456789abcdef'' ! d"

definition json_escape_char :: "char \<Rightarrow> string" where
  "json_escape_char c =
     (if c = CHR 0x22 then [CHR 0x5C, CHR 0x22]
      else if c = CHR 0x5C then [CHR 0x5C, CHR 0x5C]
      else if c = CHR 0x08 then [CHR 0x5C, CHR ''b'']
      else if c = CHR 0x0C then [CHR 0x5C, CHR ''f'']
      else if c = CHR 0x0A then [CHR 0x5C, CHR ''n'']
      else if c = CHR 0x0D then [CHR 0x5C, CHR ''r'']
      else if c = CHR 0x09 then [CHR 0x5C, CHR ''t'']
      else if (of_char c :: nat) < 32
        then [CHR 0x5C, CHR ''u'', CHR ''0'', CHR ''0'',
              hex_digit ((of_char c :: nat) div 16), hex_digit ((of_char c :: nat) mod 16)]
      else [c])"

definition json_quote :: "string \<Rightarrow> string" where
  "json_quote s = [CHR 0x22] @ concat (map json_escape_char s) @ [CHR 0x22]"

text \<open>
  \<open>JSON.stringify(v)\<close> without a replacer. It raises a \<open>TypeError\<close> at a BigInt and
  at a reference that closes a cycle (\<open>Inl\<close>, with V8's message for the BigInt). Otherwise
  \<open>None\<close> is the result \<open>undefined\<close> (for \<open>undefined\<close> and functions): inside an
  array it is written \<open>null\<close>, inside an object the property is left out. \<open>NaN\<close> is
  written \<open>null\<close>.
\<close>

definition bigint_error :: exn where
  "bigint_error = ExnValue (Some ''Do not know how to serialize a BigInt'')"

fun json_stringify :: "jsval \<Rightarrow> exn + string option"
  and json_elems :: "jsval list \<Rightarrow> exn + string list"
  and json_members :: "(string \<times> jsval) list \<Rightarrow> exn + string list" where
  "json_stringify JUndefined = Inr None"
| "json_stringify JNull = Inr (Some ''null'')"
| "json_stringify (JBool b) = Inr (Some (if b then ''true'' else ''false''))"
| "json_stringify (JNum i) = Inr (Some (number_text i))"
| "json_stringify JNaN = Inr (Some ''null'')"
| "json_stringify (JBigInt i) = Inl bigint_error"
| "json_stringify (JStr s) = Inr (Some (json_quote s))"
| "json_stringify (JArr vs) =
     (case json_elems vs of
        Inl e \<Rightarrow> Inl e
      | Inr ts \<Rightarrow> Inr (Some (''['' @ join '','' ts @ '']'')))"
| "json_stringify (JObj kvs) =
     (case json_members kvs of
        Inl e \<Rightarrow> Inl e
      | Inr ts \<Rightarrow> Inr (Some (''{'' @ join '','' ts @ ''}'')))"
| "json_stringify (JFunction src) = Inr None"
| "json_stringify (JError name msg) = Inr (Some ''{}'')"
| "json_stringify (JCyclic txt msg) = Inl (ExnValue (Some msg))"
| "json_elems [] = Inr []"
| "json_elems (v # vs) =
     (case json_stringify v of
        Inl e \<Rightarrow> Inl e
      | Inr t \<Rightarrow>
          (case json_elems vs of
             Inl e \<Rightarrow> Inl e
           | Inr ts \<Rightarrow> Inr ((case t of None \<Rightarrow> ''null'' | Some x \<Rightarrow> x) # ts)))"
| "json_members [] = Inr []"
| "json_members (kv # kvs) =
     (case json_stringify (snd kv) of
        Inl e \<Rightarrow> Inl e
      | Inr t \<Rightarrow>
          (case json_members kvs of
             Inl e \<Rightarrow> Inl e
           | Inr ts \<Rightarrow>
               Inr (case t of None \<Rightarrow> ts | Some x \<Rightarrow> (json_quote (fst kv) @ '':'' @ x) # ts)))"

text \<open>\<open>typeof v\<close>.\<close>

fun typeof :: "jsval \<Rightarrow> string" where
  "typeof JUndefined = ''undefined''"
| "typeof JNull = ''object''"
| "typeof (JBool b) = ''boolean''"
| "typeof (JNum i) = ''number''"
| "typeof JNaN = ''number''"
| "typeof (JBigInt i) = ''bigint''"
| "typeof (JStr s) = ''string''"
| "typeof (JArr vs) = ''object''"
| "typeof (JObj kvs) = ''object''"
| "typeof (JFunction src) = ''function''"
| "typeof (JError name msg) = ''object''"
| "typeof (JCyclic txt msg) = ''object''"

text \<open>
  \<open>String(v)\<close>; for an array, the elements joined by commas (\<open>null\<close> and
  \<open>undefined\<close> elements as the empty string); for an error, its name and message.
\<close>

fun js_String :: "jsval \<Rightarrow> string" where
  "js_String JUndefined = ''undefined''"
| "js_String JNull = ''null''"
| "js_String (JBool b) = (if b then ''true'' else ''false'')"
| "js_String (JNum i) = number_text i"
| "js_String JNaN = ''NaN''"
| "js_String (JBigInt i) = string_of_int i"
| "js_String (JStr s) = s"
| "js_String (JArr vs) =
     join '','' (map (\<lambda>v. if v = JUndefined \<or> v = JNull then [] else js_String v) vs)"
| "js_String (JObj kvs) = ''[object Object]''"
| "js_String (JFunction src) = src"
| "js_String (JError name msg) =
     (if msg = [] then name else if name = [] then msg else name @ '': '' @ msg)"
| "js_String (JCyclic txt msg) = txt"

section \<open>The trace runtime (executor.ts, the \<open>tracer\<close> object)\<close>

text \<open>
  The mutable state of one \<open>executeCode\<close> call: the closure variables \<open>timeline\<close>,
  \<open>currentLogs\<close>, \<open>lastLine\<close>, \<open>stepCount\<close> and the tracer's fields
  \<open>stack\<close>, \<open>currentLine\<close>, \<open>_inputValues\<close>, \<open>_inputIndex\<close>. \<open>stack\<close> is the
  array, bottom frame first: \<open>push\<close> appends, \<open>pop\<close> removes the last element.
\<close>

record run_state =
  timeline :: Timeline
  currentLogs :: "ConsoleLog list"
  lastLine :: int
  stepCount :: nat
  stack :: "string list"
  currentLine :: int
  inputValues :: "int list"
  inputIndex :: int

definition MAX_STEPS :: nat where
  "MAX_STEPS = 2000"

definition initial_state :: run_state where
  "initial_state =
     \<lparr>timeline = [], currentLogs = [], lastLine = 0, stepCount = 0,
      stack = [''main''], currentLine = 1,
      inputValues = [5, 10, 3, 7, 1, 42, 100, 0, -1, 99], inputIndex = 0\<rparr>"

definition tracer_enter :: "string \<Rightarrow> run_state \<Rightarrow> run_state" where
  "tracer_enter name s = s\<lparr>stack := stack s @ [name]\<rparr>"

definition tracer_exit :: "run_state \<Rightarrow> run_state" where
  "tracer_exit s = (if length (stack s) > 1 then s\<lparr>stack := butlast (stack s)\<rparr> else s)"

definition tracer_setLine :: "int \<Rightarrow> run_state \<Rightarrow> run_state" where
  "tracer_setLine ln s = s\<lparr>currentLine := ln, lastLine := ln\<rparr>"

text \<open>
  \<open>JSON.parse(JSON.stringify(vars, replacer))\<close>: the replacer turns functions,
  \<open>undefined\<close> and \<open>NaN\<close> into marker strings, at the root and at every property and
  element; an error comes back as the empty object; \<open>JSON.stringify\<close> raises at a BigInt
  and at a reference that closes a cycle, which the replacer lets through; every other
  value of \<open>jsval\<close> survives the round trip.
\<close>

fun safeVars :: "jsval \<Rightarrow> exn + jsval"
  and safeVars_elems :: "jsval list \<Rightarrow> exn + jsval list"
  and safeVars_members :: "(string \<times> jsval) list \<Rightarrow> exn + (string \<times> jsval) list" where
  "safeVars (JFunction src) = Inr (JStr ''[Function]'')"
| "safeVars JUndefined = Inr (JStr ''undefined'')"
| "safeVars JNaN = Inr (JStr ''NaN'')"
| "safeVars (JBigInt i) = Inl bigint_error"
| "safeVars (JCyclic txt msg) = Inl (ExnValue (Some msg))"
| "safeVars (JError name msg) = Inr (JObj [])"
| "safeVars (JArr vs) = (case safeVars_elems vs of Inl e \<Rightarrow> Inl e | Inr ws \<Rightarrow> Inr (JArr ws))"
| "safeVars (JObj kvs) = (case safeVars_members kvs of Inl e \<Rightarrow> Inl e | Inr ws \<Rightarrow> Inr (JObj ws))"
| "safeVars JNull = Inr JNull"
| "safeVars (JBool b) = Inr (JBool b)"
| "safeVars (JNum i) = Inr (JNum i)"
| "safeVars (JStr s) = Inr (JStr s)"
| "safeVars_elems [] = Inr []"
| "safeVars_elems (v # vs) =
     (case safeVars v of
        Inl e \<Rightarrow> Inl e
      | Inr w \<Rightarrow> (case safeVars_elems vs of Inl e \<Rightarrow> Inl e | Inr ws \<Rightarrow> Inr (w # ws)))"
| "safeVars_members [] = Inr []"
| "safeVars_members (kv # kvs) =
     (case safeVars (snd kv) of
        Inl e \<Rightarrow> Inl e
      | Inr w \<Rightarrow>
          (case safeVars_members kvs of Inl e \<Rightarrow> Inl e | Inr ws \<Rightarrow> Inr ((fst kv, w) # ws)))"

definition budget_message :: string where
  "budget_message = ''Execution limit exceeded (infinite loop detection).''"

text \<open>
  \<open>step\<close>: \<open>stepCount++ > MAX_STEPS\<close> compares the counter before the increment and
  increments it in either case. Within the budget the two line variables are set, then the
  snapshot is made, which can raise, and only then the step is pushed. The first
  component is the exception raised, if any.
\<close>

definition tracer_step :: "int \<Rightarrow> jsval \<Rightarrow> run_state \<Rightarrow> exn option \<times> run_state" where
  "tracer_step ln vars s =
     (if stepCount s > MAX_STEPS
      then (Some (ExnValue (Some budget_message)), s\<lparr>stepCount := stepCount s + 1\<rparr>)
      else
        (case safeVars vars of
           Inl e \<Rightarrow> (Some e, s\<lparr>stepCount := stepCount s + 1, currentLine := ln, lastLine := ln\<rparr>)
         | Inr v \<Rightarrow>
             (None,
              s\<lparr>stepCount := stepCount s + 1, currentLine := ln, lastLine := ln,
                timeline := timeline s @
                  [\<lparr>line = ln, variables = v, callStack = stack s,
                    consoleOutput = currentLogs s, isError = None, errorMessage = None\<rparr>]\<rparr>)))"

definition tracer_checkLoop :: "run_state \<Rightarrow> bool" where
  "tracer_checkLoop s = (if stepCount s > MAX_STEPS then True else False)"

text \<open>
  \<open>log\<close>: every argument is turned into text first, with
  \<open>typeof a === 'object' ? JSON.stringify(a) : String(a)\<close>, which can raise; the entry
  is pushed after that.
\<close>

definition log_arg :: "jsval \<Rightarrow> exn + string" where
  "log_arg a =
     (if typeof a = ''object'' then
        (case json_stringify a of
           Inl e \<Rightarrow> Inl e
         | Inr None \<Rightarrow> Inr ''undefined''
         | Inr (Some t) \<Rightarrow> Inr t)
      else Inr (js_String a))"

fun log_args :: "jsval list \<Rightarrow> exn + string list" where
  "log_args [] = Inr []"
| "log_args (a # bs) =
     (case log_arg a of
        Inl e \<Rightarrow> Inl e
      | Inr t \<Rightarrow> (case log_args bs of Inl e \<Rightarrow> Inl e | Inr ts \<Rightarrow> Inr (t # ts)))"

definition tracer_log :: "jsval list \<Rightarrow> run_state \<Rightarrow> exn option \<times> run_state" where
  "tracer_log args s =
     (case log_args args of
        Inl e \<Rightarrow> (Some e, s)
      | Inr ts \<Rightarrow>
          (None, s\<lparr>currentLogs := currentLogs s @ [\<lparr>ltype = Tlog, message = join '' '' ts\<rparr>]\<rparr>))"

text \<open>
  \<open>input\<close>: the element at \<open>_inputIndex % _inputValues.length\<close>, which is
  \<open>undefined\<close> when the array is empty or the remainder is negative.
\<close>

definition input_value :: "run_state \<Rightarrow> jsval" where
  "input_value s =
     (if inputValues s = [] then JUndefined
      else if js_rem (inputIndex s) (int (length (inputValues s))) < 0 then JUndefined
      else JNum (inputValues s ! nat (js_rem (inputIndex s) (int (length (inputValues s))))))"

definition tracer_input :: "run_state \<Rightarrow> jsval \<times> run_state" where
  "tracer_input s =
     (input_value s,
      s\<lparr>inputIndex := inputIndex s + 1,
        currentLogs := currentLogs s @
          [\<lparr>ltype = Tlog,
            message = ''[input] '' @ [CHR 0xE2, CHR 0x86, CHR 0x92] @ '' '' @ js_String (input_value s) @ '' ''\<rparr>]\<rparr>)"

text \<open>
  The \<open>console\<close> object that \<open>wrappedCode\<close> puts in scope of the program:
  \<open>{ log: __tracer.log, error: __tracer.log, warn: __tracer.log }\<close>.
\<close>

datatype console_method = Console_log | Console_error | Console_warn

fun console :: "console_method \<Rightarrow> jsval list \<Rightarrow> run_state \<Rightarrow> exn option \<times> run_state" where
  "console Console_log = tracer_log"
| "console Console_error = tracer_log"
| "console Console_warn = tracer_log"
section \<open>The syntax instrumenter (instrumenter.ts)\<close>

subsection \<open>Syntax trees\<close>

text \<open>
  A node of the parser's tree, as the instrumenter reads it: its \<open>type\<close>, its
  \<open>start\<close> and \<open>end\<close> offsets, and its other properties in the order of
  \<open>Object.keys\<close>. A property holds a node, an array of nodes (\<open>None\<close> for a
  \<open>null\<close> element), a string (an identifier's \<open>name\<close>) or anything else
  (\<open>loc\<close>, \<open>kind\<close>, \<open>raw\<close>, flags: values without a string \<open>type\<close>, which
  the traversal passes over). Trees have no sharing, and sibling nodes differ in their
  offsets, so the identity test \<open>parent.init === node\<close> is equality of trees.
\<close>

datatype node = Node (ntype: string) (nstart: int) (nend: int) (nprops: "(string \<times> pval) list")
and pval = PNode node | PNodes "node option list" | PStr string | POther

definition child :: "node \<Rightarrow> string \<Rightarrow> node option" where
  "child n k = (case map_of (nprops n) k of Some (PNode c) \<Rightarrow> Some c | _ \<Rightarrow> None)"

definition children :: "node \<Rightarrow> string \<Rightarrow> node list" where
  "children n k =
     (case map_of (nprops n) k of
        Some (PNodes cs) \<Rightarrow> concat (map (\<lambda>c. case c of None \<Rightarrow> [] | Some x \<Rightarrow> [x]) cs)
      | _ \<Rightarrow> [])"

text \<open>
  \<open>id.name\<close>; a node without the property would give \<open>undefined\<close>, which a template
  literal prints as that word.
\<close>

definition name_of :: "node \<Rightarrow> string" where
  "name_of n = (case map_of (nprops n) ''name'' of Some (PStr s) \<Rightarrow> s | _ \<Rightarrow> ''undefined'')"

text \<open>
  \<open>acorn.getLineInfo(code, offset).line\<close>: one more than the number of line breaks before
  the offset, where \<open>\r\n\<close> is one break.
\<close>

definition isNewLine :: "char \<Rightarrow> bool" where
  "isNewLine c = (c = CHR 0x0A \<or> c = CHR 0x0D)"

fun line_breaks :: "string \<Rightarrow> nat" where
  "line_breaks [] = 0"
| "line_breaks [c] = (if isNewLine c then 1 else 0)"
| "line_breaks (c # d # cs) =
     (if c = CHR 0x0D \<and> d = CHR 0x0A then 1 + line_breaks cs
      else if isNewLine c then 1 + line_breaks (d # cs)
      else line_breaks (d # cs))"

definition getLineInfo_line :: "string \<Rightarrow> int \<Rightarrow> int" where
  "getLineInfo_line code offset = 1 + int (line_breaks (take (nat offset) code))"

subsection \<open>Patches and scopes\<close>

datatype Patch = Patch (index: int) (ptext: string)

text \<open>
  The state of one \<open>instrumentCode\<close> call: the \<open>patches\<close> array in registration
  order and the \<open>scopeStack\<close>, each \<open>Set\<close> as the list of its elements in insertion
  order.
\<close>

record wstate =
  patches :: "Patch list"
  scopeStack :: "string list list"

definition addPatch :: "int \<Rightarrow> string \<Rightarrow> wstate \<Rightarrow> wstate" where
  "addPatch i t st = st\<lparr>patches := patches st @ [Patch i t]\<rparr>"

definition set_add :: "string \<Rightarrow> string list \<Rightarrow> string list" where
  "set_add v vs = (if v \<in> set vs then vs else vs @ [v])"

text \<open>
  The engine's \<open>TypeError\<close> for reading property \<open>p\<close> of \<open>null\<close> or
  \<open>undefined\<close> (V8's wording).
\<close>

definition TypeError_of :: "string \<Rightarrow> string \<Rightarrow> exn" where
  "TypeError_of base p =
     ExnValue (Some (''Cannot read properties of '' @ base @ '' (reading '' @ [CHR 0x27] @ p @ [CHR 0x27] @ '')''))"

definition TypeError_reading :: "string \<Rightarrow> exn" where
  "TypeError_reading p = TypeError_of ''undefined'' p"

text \<open>\<open>scopeStack[scopeStack.length - 1].add(v)\<close>.\<close>

definition add_to_top :: "string \<Rightarrow> wstate \<Rightarrow> exn + wstate" where
  "add_to_top v st =
     (if scopeStack st = [] then Inl (TypeError_reading ''add'')
      else Inr (st\<lparr>scopeStack := butlast (scopeStack st) @ [set_add v (last (scopeStack st))]\<rparr>))"

fun add_all_to_top :: "string list \<Rightarrow> wstate \<Rightarrow> exn + wstate" where
  "add_all_to_top [] st = Inr st"
| "add_all_to_top (v # vs) st =
     (case add_to_top v st of Inl e \<Rightarrow> Inl e | Inr st1 \<Rightarrow> add_all_to_top vs st1)"

text \<open>\<open>scopeStack[scopeStack.length - 2].add(v)\<close>, called when the stack has two sets.\<close>

definition add_to_enclosing :: "string \<Rightarrow> wstate \<Rightarrow> wstate" where
  "add_to_enclosing v st =
     (let ss = scopeStack st; k = length ss - 2
      in st\<lparr>scopeStack := ss[k := set_add v (ss ! k)]\<rparr>)"

definition getCurrentScopeVars :: "wstate \<Rightarrow> string list" where
  "getCurrentScopeVars st = fold set_add (concat (scopeStack st)) []"

definition generateTraceCall :: "int \<Rightarrow> wstate \<Rightarrow> string" where
  "generateTraceCall ln st =
     (let vars = getCurrentScopeVars st;
          varObj = ''{ '' @ join '', ''
            (map (\<lambda>v. v @ '': (typeof '' @ v @ '' !== '' @ [CHR 0x27] @ ''undefined'' @ [CHR 0x27]
                        @ '' ? '' @ v @ '' : undefined)'') vars) @ '' }''
      in ''__tracer.step('' @ string_of_int ln @ '', '' @ varObj @ '');'')"

subsection \<open>The rules of \<open>walk\<close>, in the order of the source\<close>

text \<open>Loop initialisers are not visited at all.\<close>

definition skip_initializer :: "node \<Rightarrow> node option \<Rightarrow> bool" where
  "skip_initializer n parent =
     (case parent of
        None \<Rightarrow> False
      | Some p \<Rightarrow>
          (ntype p = ''ForStatement'' \<and> child p ''init'' = Some n) \<or>
          (ntype p = ''ForInStatement'' \<and> child p ''left'' = Some n) \<or>
          (ntype p = ''ForOfStatement'' \<and> child p ''left'' = Some n))"

definition isBlock :: "node \<Rightarrow> bool" where
  "isBlock n = (ntype n = ''BlockStatement'' \<or> ntype n = ''Program'')"

definition isFunction :: "node \<Rightarrow> bool" where
  "isFunction n =
     (ntype n = ''FunctionDeclaration'' \<or> ntype n = ''ArrowFunctionExpression'' \<or>
      ntype n = ''FunctionExpression'')"

definition enter_scope :: "node \<Rightarrow> wstate \<Rightarrow> wstate" where
  "enter_scope n st =
     (if isBlock n \<or> isFunction n then st\<lparr>scopeStack := scopeStack st @ [[]]\<rparr> else st)"

definition exit_scope :: "node \<Rightarrow> wstate \<Rightarrow> wstate" where
  "exit_scope n st =
     (if isBlock n \<or> isFunction n then st\<lparr>scopeStack := butlast (scopeStack st)\<rparr> else st)"

definition identifier_names :: "node list \<Rightarrow> string list" where
  "identifier_names ns = map name_of (filter (\<lambda>n. ntype n = ''Identifier'') ns)"

definition declared_ids :: "node \<Rightarrow> node list" where
  "declared_ids n =
     concat (map (\<lambda>decl. case child decl ''id'' of None \<Rightarrow> [] | Some i \<Rightarrow> [i])
                 (children n ''declarations''))"

definition variable_collection :: "node \<Rightarrow> wstate \<Rightarrow> exn + wstate" where
  "variable_collection n st =
     (case (if ntype n = ''VariableDeclaration''
            then add_all_to_top (identifier_names (declared_ids n)) st else Inr st) of
        Inl e \<Rightarrow> Inl e
      | Inr st1 \<Rightarrow>
          (let st2 =
             (case child n ''id'' of
                Some i \<Rightarrow>
                  if isFunction n \<and> ntype i = ''Identifier'' \<and> length (scopeStack st1) > 1
                  then add_to_enclosing (name_of i) st1 else st1
              | None \<Rightarrow> st1)
           in if isFunction n then add_all_to_top (identifier_names (children n ''params'')) st2
              else Inr st2))"

definition loop_guard :: string where
  "loop_guard = '' if (__tracer.checkLoop()) break; ''"

definition loop_protection :: "node \<Rightarrow> wstate \<Rightarrow> exn + wstate" where
  "loop_protection n st =
     (if ntype n \<in> set [''ForStatement'', ''WhileStatement'', ''DoWhileStatement''] then
        (case child n ''body'' of
           None \<Rightarrow> Inl (TypeError_reading ''type'')
         | Some body \<Rightarrow>
             if ntype body = ''BlockStatement''
             then Inr (addPatch (nstart body + 1) loop_guard st)
             else Inr (addPatch (nend body) '' }''
                        (addPatch (nstart body) (''{ if (__tracer.checkLoop()) break; '') st)))
      else Inr st)"

definition funcName :: "node \<Rightarrow> string" where
  "funcName n =
     (case child n ''id'' of
        None \<Rightarrow> ''(anonymous)''
      | Some i \<Rightarrow>
          (case map_of (nprops i) ''name'' of
             Some (PStr s) \<Rightarrow> if s = [] then ''(anonymous)'' else s
           | _ \<Rightarrow> ''(anonymous)''))"

definition enter_text :: "string \<Rightarrow> string" where
  "enter_text name = '' __tracer.enter('' @ [CHR 0x22] @ name @ [CHR 0x22] @ ''); try { ''"

definition finally_text :: string where
  "finally_text = '' } finally { __tracer.exit(); } ''"

definition function_entry_exit :: "node \<Rightarrow> wstate \<Rightarrow> exn + wstate" where
  "function_entry_exit n st =
     (if isFunction n then
        (case child n ''body'' of
           None \<Rightarrow> Inl (TypeError_reading ''type'')
         | Some body \<Rightarrow>
             if ntype body = ''BlockStatement''
             then Inr (addPatch (nend body - 1) finally_text
                        (addPatch (nstart body + 1) (enter_text (funcName n)) st))
             else Inr st)
      else Inr st)"

definition setLine_text :: "int \<Rightarrow> string" where
  "setLine_text ln = ''__tracer.setLine('' @ string_of_int ln @ ''); ''"

definition needsBlock :: "node \<Rightarrow> node option \<Rightarrow> bool" where
  "needsBlock n parent =
     (case parent of
        None \<Rightarrow> False
      | Some p \<Rightarrow>
          ntype p \<in> set [''IfStatement'', ''ForStatement'', ''WhileStatement'',
                          ''DoWhileStatement'', ''ForInStatement'', ''ForOfStatement''] \<and>
          child p ''body'' \<noteq> Some n \<and>
          (child p ''consequent'' = Some n \<or> child p ''alternate'' = Some n \<or>
           child p ''body'' = Some n))"

definition statement_instrumentation :: "int \<Rightarrow> node \<Rightarrow> node option \<Rightarrow> wstate \<Rightarrow> wstate" where
  "statement_instrumentation ln n parent st =
     (if ntype n = ''VariableDeclaration'' \<or> ntype n = ''ExpressionStatement'' then
        (let st1 = addPatch (nstart n) (setLine_text ln) st;
             trace = generateTraceCall ln st1
         in if needsBlock n parent
            then addPatch (nend n) (''; '' @ trace @ '' }'') (addPatch (nstart n) ''{ '' st1)
            else addPatch (nend n) (''; '' @ trace) st1)
      else st)"

text \<open>\<open>trace.replace(/;$/, '')\<close>: a semicolon at the very end is removed.\<close>

definition strip_semicolon :: "string \<Rightarrow> string" where
  "strip_semicolon t = (if t \<noteq> [] \<and> last t = CHR '';'' then butlast t else t)"

definition return_trace :: "int \<Rightarrow> node \<Rightarrow> wstate \<Rightarrow> wstate" where
  "return_trace ln n st =
     (if ntype n = ''ReturnStatement'' then
        (let st1 = addPatch (nstart n) (setLine_text ln) st;
             trace = generateTraceCall ln st1;
             traceExpr = strip_semicolon trace
         in case child n ''argument'' of
              Some arg \<Rightarrow>
                addPatch (nend arg) '')'' (addPatch (nstart arg) (''('' @ traceExpr @ '', '') st1)
            | None \<Rightarrow>
                addPatch (nend n) '' }''
                  (addPatch (nstart n) ''{ ''
                    (addPatch (nstart n) (generateTraceCall ln st1) st1)))
      else st)"

text \<open>Everything \<open>walk\<close> does at a node before it visits the children.\<close>

definition visit :: "string \<Rightarrow> node \<Rightarrow> node option \<Rightarrow> wstate \<Rightarrow> exn + wstate" where
  "visit code n parent st =
     (case variable_collection n (enter_scope n st) of
        Inl e \<Rightarrow> Inl e
      | Inr st1 \<Rightarrow>
          (case loop_protection n st1 of
             Inl e \<Rightarrow> Inl e
           | Inr st2 \<Rightarrow>
               (let ln = getLineInfo_line code (nstart n) in
                case function_entry_exit n st2 of
                  Inl e \<Rightarrow> Inl e
                | Inr st3 \<Rightarrow>
                    Inr (return_trace ln n (statement_instrumentation ln n parent st3)))))"

fun walk :: "string \<Rightarrow> node \<Rightarrow> node option \<Rightarrow> wstate \<Rightarrow> exn + wstate"
  and walk_keys :: "string \<Rightarrow> node \<Rightarrow> (string \<times> pval) list \<Rightarrow> wstate \<Rightarrow> exn + wstate"
  and walk_array :: "string \<Rightarrow> node \<Rightarrow> node option list \<Rightarrow> wstate \<Rightarrow> exn + wstate" where
  "walk code (Node t s e ps) parent st =
     (if skip_initializer (Node t s e ps) parent then Inr st
      else case visit code (Node t s e ps) parent st of
             Inl err \<Rightarrow> Inl err
           | Inr st1 \<Rightarrow>
               (case walk_keys code (Node t s e ps) ps st1 of
                  Inl err \<Rightarrow> Inl err
                | Inr st2 \<Rightarrow> Inr (exit_scope (Node t s e ps) st2)))"
| "walk_keys code n [] st = Inr st"
| "walk_keys code n ((k, PNode v) # rest) st =
     (case walk code v (Some n) st of
        Inl err \<Rightarrow> Inl err
      | Inr st1 \<Rightarrow> walk_keys code n rest st1)"
| "walk_keys code n ((k, PNodes vs) # rest) st =
     (case walk_array code n vs st of
        Inl err \<Rightarrow> Inl err
      | Inr st1 \<Rightarrow> walk_keys code n rest st1)"
| "walk_keys code n ((k, PStr v) # rest) st = walk_keys code n rest st"
| "walk_keys code n ((k, POther) # rest) st = walk_keys code n rest st"
| "walk_array code n [] st = Inr st"
| "walk_array code n (None # vs) st = walk_array code n vs st"
| "walk_array code n (Some v # vs) st =
     (case walk code v (Some n) st of
        Inl err \<Rightarrow> Inl err
      | Inr st1 \<Rightarrow> walk_array code n vs st1)"

subsection \<open>Patch application\<close>

text \<open>
  \<open>String.prototype.slice\<close>: a negative index counts from the end, and indices are
  clamped to the string.
\<close>

definition rel_index :: "int \<Rightarrow> nat \<Rightarrow> nat" where
  "rel_index i len = (if i < 0 then nat (max (int len + i) 0) else min (nat i) len)"

definition slice :: "string \<Rightarrow> int \<Rightarrow> int \<Rightarrow> string" where
  "slice s a b =
     (let lo = rel_index a (length s); hi = rel_index b (length s)
      in take (hi - lo) (drop lo s))"

definition slice_from :: "string \<Rightarrow> int \<Rightarrow> string" where
  "slice_from s a = drop (rel_index a (length s)) s"

definition apply_patch :: "Patch \<Rightarrow> string \<Rightarrow> string" where
  "apply_patch p out = slice out 0 (index p) @ ptext p @ slice_from out (index p)"

text \<open>
  \<open>patches.sort((a, b) => b.index - a.index)\<close>: \<open>Array.prototype.sort\<close> is stable, and
  the comparator orders by descending index.
\<close>

definition sort_patches :: "Patch list \<Rightarrow> Patch list" where
  "sort_patches ps = sort_key (\<lambda>p. - index p) ps"

definition apply_patches :: "Patch list \<Rightarrow> string \<Rightarrow> string" where
  "apply_patches ps code = fold apply_patch (sort_patches ps) code"

definition initial_wstate :: wstate where
  "initial_wstate = \<lparr>patches = [], scopeStack = [[]]\<rparr>"

text \<open>
  \<open>instrumentCode\<close>. The parser (\<open>acorn.parse\<close>) is a library outside the repository:
  it is the parameter \<open>parse\<close>, which gives the tree or the error it raises. An error is
  raised again to the caller.
\<close>

definition instrumentCode :: "(string \<Rightarrow> exn + node) \<Rightarrow> string \<Rightarrow> exn + string" where
  "instrumentCode parse code =
     (case parse code of
        Inl e \<Rightarrow> Inl e
      | Inr ast \<Rightarrow>
          (case walk code ast None initial_wstate of
             Inl e \<Rightarrow> Inl e
           | Inr st \<Rightarrow> Inr (apply_patches (patches st) code)))"

section \<open>The pipeline driver (executor.ts, \<open>executeCode\<close>)\<close>

text \<open>
  The evaluated program is handed the tracer object (\<open>arguments[0]\<close>, bound to
  \<open>__tracer\<close>) and the \<open>console\<close> object built from it. It reaches the state of the
  run by calling the tracer's methods and by writing the tracer's public fields
  (\<open>__tracer.stack.pop()\<close>, \<open>__tracer._inputIndex = 3\<close>); the closure variables
  \<open>timeline\<close>, \<open>currentLogs\<close>, \<open>lastLine\<close> and \<open>stepCount\<close> are out of its
  reach. One evaluation is therefore the sequence of these calls and writes, and how it ends.
  What a call returns to the program (the value of \<open>input\<close>, the answer of
  \<open>checkLoop\<close>, an exception) shows in what the program does next and in the completion.

  A write is modelled when it keeps the field's declared type: \<open>stack\<close> an array of
  strings (\<open>WriteStack\<close> gives its new content, whether the program assigned the field or
  changed the array in place), \<open>currentLine\<close> and \<open>_inputIndex\<close> integers,
  \<open>_inputValues\<close> an array of integers. A program that puts its own function in
  place of a method makes no call of the tracer where the instrumented code calls that
  method.
\<close>

datatype tracer_call =
    Enter string
  | Exit
  | SetLine int
  | Step int jsval
  | CheckLoop
  | Log "jsval list"
  | Console console_method "jsval list"
  | Input
  | WriteStack "string list"
  | WriteCurrentLine int
  | WriteInputValues "int list"
  | WriteInputIndex int

fun call :: "tracer_call \<Rightarrow> run_state \<Rightarrow> run_state" where
  "call (Enter name) s = tracer_enter name s"
| "call Exit s = tracer_exit s"
| "call (SetLine ln) s = tracer_setLine ln s"
| "call (Step ln vars) s = snd (tracer_step ln vars s)"
| "call CheckLoop s = s"
| "call (Log args) s = snd (tracer_log args s)"
| "call (Console m args) s = snd (console m args s)"
| "call Input s = snd (tracer_input s)"
| "call (WriteStack fs) s = s\<lparr>stack := fs\<rparr>"
| "call (WriteCurrentLine ln) s = s\<lparr>currentLine := ln\<rparr>"
| "call (WriteInputValues vs) s = s\<lparr>inputValues := vs\<rparr>"
| "call (WriteInputIndex i) s = s\<lparr>inputIndex := i\<rparr>"

definition run :: "tracer_call list \<Rightarrow> run_state \<Rightarrow> run_state" where
  "run calls s = fold call calls s"

datatype completion = Returned | Threw exn

text \<open>A settled promise. A promise that never settles is \<open>None\<close> where one is expected.\<close>

datatype 'a promise = Resolved 'a | Rejected exn

definition wrappedCode :: "string \<Rightarrow> string" where
  "wrappedCode instrumented =
     ''\<newline>const __tracer = arguments[0];\<newline>const console = {\<newline>  log: __tracer.log,\<newline>  error: __tracer.log,\<newline>  warn: __tracer.log\<newline>};\<newline>\<newline>try {\<newline>          ''
     @ instrumented @ ''\<newline>} catch (e) {\<newline>  throw e;\<newline>}\<newline>''"

text \<open>A template literal prints \<open>undefined\<close> for a message that is not there.\<close>

definition message_text :: "string option \<Rightarrow> string" where
  "message_text m = (case m of None \<Rightarrow> ''undefined'' | Some t \<Rightarrow> t)"

text \<open>
  The \<open>catch\<close> block of \<open>executeCode\<close>. Reading \<open>e.message\<close> of \<open>null\<close> or
  \<open>undefined\<close> raises inside the promise's executor, which rejects the promise.
\<close>

definition on_error :: "run_state \<Rightarrow> exn \<Rightarrow> Timeline promise" where
  "on_error s e =
     (case e of
        ExnNull \<Rightarrow> Rejected (TypeError_of ''null'' ''message'')
      | ExnUndefined \<Rightarrow> Rejected (TypeError_of ''undefined'' ''message'')
      | ExnValue msg \<Rightarrow>
          Resolved (timeline s @
            [\<lparr>line = lastLine s,
              variables = (if length (timeline s) > 0 then variables (last (timeline s)) else JObj []),
              callStack = (if length (timeline s) > 0 then callStack (last (timeline s)) else [''main'']),
              consoleOutput = currentLogs s @
                [\<lparr>ltype = Terror, message = ''Runtime Error: '' @ message_text msg @ '' ''\<rparr>],
              isError = Some True,
              errorMessage = msg\<rparr>]))"

text \<open>
  \<open>new Error(`Transpilation Failed: ${transpileError.message} `)\<close>, raised from the
  handler of a translator's exception.
\<close>

definition transpilation_failed :: "exn \<Rightarrow> exn" where
  "transpilation_failed e =
     (case e of
        ExnNull \<Rightarrow> TypeError_of ''null'' ''message''
      | ExnUndefined \<Rightarrow> TypeError_of ''undefined'' ''message''
      | ExnValue msg \<Rightarrow> ExnValue (Some (''Transpilation Failed: '' @ message_text msg @ '' '')))"

text \<open>
  The language dispatch. \<open>cpp\<close> and \<open>py\<close> are the two translators, each giving the
  translated text or the exception it raises.
\<close>

definition codeToInstrument ::
  "(string \<Rightarrow> exn + string) \<Rightarrow> (string \<Rightarrow> exn + string) \<Rightarrow> string \<Rightarrow> string \<Rightarrow> exn + string" where
  "codeToInstrument cpp py userCode language =
     (if language = ''c++'' \<or> language = ''cpp'' then
        (case cpp userCode of Inl e \<Rightarrow> Inl (transpilation_failed e) | Inr js \<Rightarrow> Inr js)
      else if language = ''python'' \<or> language = ''py'' then
        (case py userCode of Inl e \<Rightarrow> Inl (transpilation_failed e) | Inr js \<Rightarrow> Inr js)
      else Inr userCode)"

text \<open>
  The \<open>try\<close> block of \<open>executeCode\<close>: the calls the tracer received and how the block
  ended; \<open>None\<close> when the evaluation never returns. \<open>evaluate\<close> is the engine running
  \<open>new Function(wrappedCode).call(null, tracer)\<close>: it gives the calls the program makes
  and its completion (a \<open>SyntaxError\<close> of \<open>new Function\<close> is a completion with no
  call).
\<close>

definition try_block ::
  "(string \<Rightarrow> exn + string) \<Rightarrow> (string \<Rightarrow> exn + string) \<Rightarrow> (string \<Rightarrow> exn + node) \<Rightarrow>
   (string \<Rightarrow> (tracer_call list \<times> completion) option) \<Rightarrow> string \<Rightarrow> string \<Rightarrow>
   (tracer_call list \<times> completion) option" where
  "try_block cpp py parse evaluate userCode language =
     (case codeToInstrument cpp py userCode language of
        Inl e \<Rightarrow> Some ([], Threw e)
      | Inr code \<Rightarrow>
          (case instrumentCode parse code of
             Inl e \<Rightarrow> Some ([], Threw e)
           | Inr instrumented \<Rightarrow> evaluate (wrappedCode instrumented)))"

definition executeCode ::
  "(string \<Rightarrow> exn + string) \<Rightarrow> (string \<Rightarrow> exn + string) \<Rightarrow> (string \<Rightarrow> exn + node) \<Rightarrow>
   (string \<Rightarrow> (tracer_call list \<times> completion) option) \<Rightarrow> string \<Rightarrow> string \<Rightarrow>
   Timeline promise option" where
  "executeCode cpp py parse evaluate userCode language =
     (case try_block cpp py parse evaluate userCode language of
        None \<Rightarrow> None
      | Some (calls, c) \<Rightarrow>
          (let s = run calls initial_state in
           Some (case c of
                   Returned \<Rightarrow> Resolved (timeline s)
                 | Threw e \<Rightarrow> on_error s e)))"

datatype citem = CChar char | CLower | CUpper | CDigit | CWord | CSpace

datatype regex =
    Eps
  | Lit char
  | Dot
  | Class bool "citem list"
  | Cat regex regex
  | Alt regex regex
  | Star regex
  | Group nat regex
  | Backref nat
  | Bol
  | Eol
  | WordBoundary
  | NotAhead regex

definition is_lower :: "char \<Rightarrow> bool" where
  "is_lower c = (c \<in> set ''abcdefghijklmnopqrstuvwxyz'')"

definition is_upper :: "char \<Rightarrow> bool" where
  "is_upper c = (c \<in> set ''ABCDEFGHIJKLMNOPQRSTUVWXYZ'')"

definition is_digit :: "char \<Rightarrow> bool" where
  "is_digit c = (c \<in> set ''0123456789'')"


definition is_space :: "char \<Rightarrow> bool" where
  "is_space c = (c \<in> set [CHR 0x09, CHR 0x0A, CHR 0x0B, CHR 0x0C, CHR 0x0D, CHR '' ''])"

lemma is_lower_code [code]:
  "is_lower (Char b0 b1 b2 b3 b4 b5 b6 b7) =
     (\<not> b7 \<and> b6 \<and> b5 \<and> (b4 \<or> b3 \<or> b2 \<or> b1 \<or> b0) \<and> \<not> (b4 \<and> b3 \<and> (b2 \<or> (b1 \<and> b0))))"
  by (cases b0; cases b1; cases b2; cases b3; cases b4; cases b5; cases b6; cases b7)
     (simp_all add: is_lower_def)

lemma is_upper_code [code]:
  "is_upper (Char b0 b1 b2 b3 b4 b5 b6 b7) =
     (\<not> b7 \<and> b6 \<and> \<not> b5 \<and> (b4 \<or> b3 \<or> b2 \<or> b1 \<or> b0) \<and> \<not> (b4 \<and> b3 \<and> (b2 \<or> (b1 \<and> b0))))"
  by (cases b0; cases b1; cases b2; cases b3; cases b4; cases b5; cases b6; cases b7)
     (simp_all add: is_upper_def)

lemma is_digit_code [code]:
  "is_digit (Char b0 b1 b2 b3 b4 b5 b6 b7) =
     (\<not> b7 \<and> \<not> b6 \<and> b5 \<and> b4 \<and> (\<not> b3 \<or> (\<not> b2 \<and> \<not> b1)))"
  by (cases b0; cases b1; cases b2; cases b3; cases b4; cases b5; cases b6; cases b7)
     (simp_all add: is_digit_def)

lemma is_space_code [code]:
  "is_space (Char b0 b1 b2 b3 b4 b5 b6 b7) =
     (\<not> b7 \<and> \<not> b6 \<and> \<not> b4 \<and>
      ((b5 \<and> \<not> b3 \<and> \<not> b2 \<and> \<not> b1 \<and> \<not> b0) \<or>
       (\<not> b5 \<and> b3 \<and> ((\<not> b2 \<and> (b1 \<or> b0)) \<or> (b2 \<and> \<not> b1)))))"
  by (cases b0; cases b1; cases b2; cases b3; cases b4; cases b5; cases b6; cases b7)
     (simp_all add: is_space_def)












definition opt :: "regex \<Rightarrow> regex" where
  "opt r = Alt r Eps"
definition ws :: regex where "ws = Class False [CSpace]"

datatype ritem = RText string | RGroup nat
























definition T :: "string \<Rightarrow> ritem" where "T = RText"
definition G :: "nat \<Rightarrow> ritem" where "G = RGroup"










section \<open>Notions used to state the properties\<close>











text \<open>
  The instrumented text as the specification describes it, in terms of the offsets of the
  source: at every offset stand the texts of the patches recorded for that offset, the
  one registered last first, in front of the character of the source at that offset.
\<close>

definition inserted_at :: "Patch list \<Rightarrow> int \<Rightarrow> string" where
  "inserted_at ps i = concat (rev (map ptext (filter (\<lambda>p. index p = i) ps)))"

fun weave_from :: "int \<Rightarrow> string \<Rightarrow> Patch list \<Rightarrow> string" where
  "weave_from i [] ps = inserted_at ps i"
| "weave_from i (c # cs) ps = inserted_at ps i @ c # weave_from (i + 1) cs ps"

definition weave :: "string \<Rightarrow> Patch list \<Rightarrow> string" where
  "weave code ps = weave_from 0 code ps"

definition in_range :: "string \<Rightarrow> Patch \<Rightarrow> bool" where
  "in_range code p = (0 \<le> index p \<and> index p \<le> int (length code))"

section \<open>Runs of particular programs\<close>

text \<open>
  The parser and the engine are not part of the repository. Where a property is shown on
  a particular program, the tree is the one \<open>acorn.parse\<close> builds for the text
  (\<open>ecmaVersion: 2020\<close>, \<open>locations: true\<close>; a property that holds no node or name
  is \<open>POther\<close>), and the calls are those the program makes when the engine evaluates
  the wrapped code. The text between the two, the instrumented code, is computed by
  \<open>instrumentCode\<close>, and the timeline by the tracer and the driver.
\<close>

text \<open>
  An engine of which one evaluation is known: of the wrapped form of \<open>text\<close>. Other
  texts are of no concern where it is used (it is made not to return on them).
\<close>

definition known_run ::
  "string \<Rightarrow> tracer_call list \<times> completion \<Rightarrow> string \<Rightarrow> (tracer_call list \<times> completion) option" where
  "known_run text r code = (if code = wrappedCode text then Some r else None)"

subsection \<open>A function that logs with \<open>console.error\<close>, and an error after the call\<close>








subsection \<open>A program that pops the tracer's stack itself\<close>







subsection \<open>The empty program\<close>




subsection \<open>A function whose body has no space inside its braces\<close>

text \<open>
  The patches of the function and those of its only statement meet at the same two
  offsets: after the opening brace and before the closing one.
\<close>

definition tie_source :: string where
  "tie_source = ''function f(){x=1}''"

definition tie_tree :: node where
  "tie_tree =
     Node ''Program'' 0 17
       [(''loc'', POther),
        (''body'', PNodes
          [Some (Node ''FunctionDeclaration'' 0 17
                   [(''loc'', POther),
                    (''id'', PNode
                      (Node ''Identifier'' 9 10 [(''loc'', POther), (''name'', PStr ''f'')])),
                    (''expression'', POther),
                    (''generator'', POther),
                    (''async'', POther),
                    (''params'', PNodes []),
                    (''body'', PNode
                      (Node ''BlockStatement'' 12 17
                         [(''loc'', POther),
                          (''body'', PNodes
                            [Some (Node ''ExpressionStatement'' 13 16
                                     [(''loc'', POther),
                                      (''expression'', PNode
                                        (Node ''AssignmentExpression'' 13 16
                                           [(''loc'', POther),
                                            (''operator'', POther),
                                            (''left'', PNode
                                              (Node ''Identifier'' 13 14
                                                 [(''loc'', POther),
                                                  (''name'', PStr ''x'')])),
                                            (''right'', PNode
                                              (Node ''Literal'' 15 16
                                                 [(''loc'', POther),
                                                  (''value'', POther),
                                                  (''raw'', POther)]))]))])])]))])]),
        (''sourceType'', POther)]"

definition tie_patches :: "Patch list" where
  "tie_patches =
     [Patch 13 '' __tracer.enter(\"f\"); try { '',
      Patch 16 '' } finally { __tracer.exit(); } '',
      Patch 13 ''__tracer.setLine(1); '',
      Patch 16 ''; __tracer.step(1, { f: (typeof f !== 'undefined' ? f : undefined) });'']"

definition tie_text :: string where
  "tie_text =
     ''function f(){__tracer.setLine(1);  __tracer.enter(\"f\"); try { x=1; __tracer.step(1, { f: (typeof f !== 'undefined' ? f : undefined) }); } finally { __tracer.exit(); } }''"

text \<open>
  A parser of which one result is known: on \<open>text\<close>. Other texts are of no concern
  where it is used (it is made to reject them, with an exception that has no message).
\<close>

definition known_parse :: "string \<Rightarrow> exn + node \<Rightarrow> string \<Rightarrow> exn + node" where
  "known_parse text r code = (if code = text then r else Inl (ExnValue None))"

subsection \<open>A loop with an empty body\<close>

definition forever_source :: string where
  "forever_source = ''while(true){}''"

definition forever_tree :: node where
  "forever_tree =
     Node ''Program'' 0 13
       [(''loc'', POther),
        (''body'', PNodes
          [Some (Node ''WhileStatement'' 0 13
                   [(''loc'', POther),
                    (''test'', PNode
                      (Node ''Literal'' 6 10
                         [(''loc'', POther),
                          (''value'', POther),
                          (''raw'', POther)])),
                    (''body'', PNode
                      (Node ''BlockStatement'' 11 13 [(''loc'', POther), (''body'', PNodes [])]))])]),
        (''sourceType'', POther)]"

definition forever_parse :: "string \<Rightarrow> exn + node" where
  "forever_parse = known_parse forever_source (Inr forever_tree)"

definition forever_text :: string where
  "forever_text = ''while(true){ if (__tracer.checkLoop()) break; }''"

subsection \<open>A Python loop over \<open>range(3)\<close>\<close>













subsection \<open>A function with an empty body\<close>

definition noop_source :: string where
  "noop_source = ''function f(){}''"

definition noop_tree :: node where
  "noop_tree =
     Node ''Program'' 0 14
       [(''loc'', POther),
        (''body'', PNodes
          [Some (Node ''FunctionDeclaration'' 0 14
                   [(''loc'', POther),
                    (''id'', PNode
                      (Node ''Identifier'' 9 10 [(''loc'', POther), (''name'', PStr ''f'')])),
                    (''expression'', POther),
                    (''generator'', POther),
                    (''async'', POther),
                    (''params'', PNodes []),
                    (''body'', PNode
                      (Node ''BlockStatement'' 12 14 [(''loc'', POther), (''body'', PNodes [])]))])]),
        (''sourceType'', POther)]"

definition noop_parse :: "string \<Rightarrow> exn + node" where
  "noop_parse = known_parse noop_source (Inr noop_tree)"

definition noop_text :: string where
  "noop_text =
     ''function f(){ } finally { __tracer.exit(); }  __tracer.enter(\"f\"); try { }''"

text \<open>
  \<open>new Function\<close> rejects the wrapped form of that text with
  \<open>SyntaxError: Unexpected token 'finally'\<close>, before any call is made.
\<close>

definition noop_message :: string where
  "noop_message = ''Unexpected token '' @ [CHR 0x27] @ ''finally'' @ [CHR 0x27]"

definition noop_run :: "string \<Rightarrow> (tracer_call list \<times> completion) option" where
  "noop_run = known_run noop_text ([], Threw (ExnValue (Some noop_message)))"

section \<open>Properties of the trace runtime\<close>

lemma run_Nil [simp]: "run [] s = s" by (simp add: run_def)
lemma run_Cons [simp]: "run (c # cs) s = run cs (call c s)" by (simp add: run_def)
lemma run_append: "run (cs @ ds) s = run ds (run cs s)" by (simp add: run_def)


















section \<open>The runs of the particular programs\<close>









section \<open>Properties of the driver\<close>

















text \<open>
  Claim C10. For a language string other than \<open>'c++'\<close>, \<open>'cpp'\<close>, \<open>'python'\<close> and
  \<open>'py'\<close>, no translator is called: the source text itself goes to the instrumenter, and
  the run is the run of the same text as \<open>'javascript'\<close>, whatever the translators are.
\<close>

theorem unknown_language_not_transpiled:
  assumes "language \<notin> {''c++'', ''cpp'', ''python'', ''py''}"
  shows "codeToInstrument cpp py userCode language = Inr userCode \<and>
         try_block cpp py parse evaluate userCode language =
           (case instrumentCode parse userCode of
              Inl e \<Rightarrow> Some ([], Threw e)
            | Inr instrumented \<Rightarrow> evaluate (wrappedCode instrumented)) \<and>
         executeCode cpp py parse evaluate userCode language =
           executeCode cpp' py' parse evaluate userCode ''javascript''"
  using assms by (simp add: codeToInstrument_def try_block_def executeCode_def)

theorem unknown_language_not_transpiled_witness:
  "''ruby'' \<notin> {''c++'', ''cpp'', ''python'', ''py''} \<and>
   codeToInstrument (\<lambda>c. Inr ''translated'') (\<lambda>c. Inr ''translated'') ''let x = 1;'' ''ruby'' =
     Inr ''let x = 1;'' \<and>
   executeCode (\<lambda>c. Inr ''translated'') (\<lambda>c. Inr ''translated'') (\<lambda>c. Inl (ExnValue None))
       (\<lambda>c. None) ''let x = 1;'' ''ruby'' =
     executeCode (\<lambda>c. Inl ExnNull) (\<lambda>c. Inl ExnNull) (\<lambda>c. Inl (ExnValue None))
       (\<lambda>c. None) ''let x = 1;'' ''javascript''"
proof -
  have h: "''ruby'' \<notin> {''c++'', ''cpp'', ''python'', ''py''}" by simp
  show ?thesis
    using h unknown_language_not_transpiled[OF h, of "\<lambda>c. Inr ''translated''"
        "\<lambda>c. Inr ''translated''" "''let x = 1;''" "\<lambda>c. Inl (ExnValue None)" "\<lambda>c. None"
        "\<lambda>c. Inl ExnNull" "\<lambda>c. Inl ExnNull"]
    by simp
qed

section \<open>Properties of the instrumenter\<close>

lemma apply_patch_eq:
  "apply_patch p out =
     take (rel_index (index p) (length out)) out @ ptext p @
     drop (rel_index (index p) (length out)) out"
  by (simp add: apply_patch_def slice_def slice_from_def rel_index_def)

lemma subseq_apply_patch: "subseq out (apply_patch p out)"
proof -
  let ?k = "rel_index (index p) (length out)"
  have "subseq (drop ?k out) (ptext p @ drop ?k out)"
    by (rule list_emb_append2) simp
  then have "subseq (take ?k out @ drop ?k out) (take ?k out @ ptext p @ drop ?k out)"
    by (rule list_emb_append_mono[OF subseq_order.order_refl])
  then show ?thesis by (simp add: apply_patch_eq)
qed

lemma subseq_fold_apply: "subseq code (fold apply_patch ps code)"
proof (induction ps arbitrary: code)
  case Nil
  then show ?case by simp
next
  case (Cons p ps)
  have "subseq code (apply_patch p code)" by (rule subseq_apply_patch)
  also have "subseq (apply_patch p code) (fold apply_patch ps (apply_patch p code))"
    by (rule Cons.IH)
  finally show ?case by simp
qed

lemma instrumentCode_subseq: "instrumentCode parse code = Inr out \<Longrightarrow> subseq code out"
  by (auto simp: instrumentCode_def apply_patches_def subseq_fold_apply split: sum.splits)

lemma take_apply_patch:
  assumes "0 \<le> i" "i \<le> index p" "nat i \<le> length out"
  shows "take (nat i) (apply_patch p out) = take (nat i) out"
proof -
  let ?k = "rel_index (index p) (length out)"
  have k: "nat i \<le> ?k" "?k \<le> length out"
    using assms by (simp_all add: rel_index_def)
  have "take (nat i) (take ?k out @ ptext p @ drop ?k out) = take (nat i) (take ?k out)"
    using k by simp
  also have "\<dots> = take (nat i) out"
    using k by (simp add: min_absorb2)
  finally show ?thesis by (simp only: apply_patch_eq)
qed

lemma length_apply_patch: "length (apply_patch p out) = length out + length (ptext p)"
  by (simp add: apply_patch_eq rel_index_def)

lemma take_fold_apply:
  assumes "0 \<le> i" "list_all (\<lambda>q. i \<le> index q) qs" "nat i \<le> length code"
  shows "take (nat i) (fold apply_patch qs code) = take (nat i) code"
  using assms
proof (induction qs arbitrary: code)
  case Nil
  then show ?case by simp
next
  case (Cons q qs)
  have "take (nat i) (fold apply_patch qs (apply_patch q code)) = take (nat i) (apply_patch q code)"
    using Cons.prems by (intro Cons.IH) (simp_all add: length_apply_patch)
  also have "\<dots> = take (nat i) code"
    using Cons.prems by (intro take_apply_patch) simp_all
  finally show ?case by simp
qed

lemma sort_patches_descending: "sorted_wrt (\<lambda>p q. index q \<le> index p) (sort_patches ps)"
proof -
  have "sorted (map (\<lambda>p. - index p) (sort_patches ps))"
    unfolding sort_patches_def by (rule sorted_sort_key)
  then show ?thesis by (simp add: sorted_map)
qed

lemma sort_patches_stable:
  "filter (\<lambda>p. index p = i) (sort_patches ps) = filter (\<lambda>p. index p = i) ps"
proof -
  have "filter (\<lambda>p. - index p = - i) (sort_key (\<lambda>p. - index p) ps) =
        filter (\<lambda>p. - index p = - i) ps"
    by (rule sort_key_stable)
  then show ?thesis by (simp add: sort_patches_def)
qed

lemma offset_not_invalidated:
  assumes "sort_patches ps = qs @ p # later" "0 \<le> index p" "index p \<le> int (length code)"
  shows "take (nat (index p)) (fold apply_patch qs code) = take (nat (index p)) code"
proof -
  have "sorted_wrt (\<lambda>p q. index q \<le> index p) (qs @ p # later)"
    using sort_patches_descending[of ps] assms(1) by simp
  then have "list_all (\<lambda>q. index p \<le> index q) qs"
    by (auto simp: sorted_wrt_append list_all_iff)
  then show ?thesis using assms(2,3) by (intro take_fold_apply) simp_all
qed

text \<open>The instrumented text is the source with the patches at their offsets.\<close>

lemma inserted_at_none: "list_all (\<lambda>q. index q \<noteq> i) qs \<Longrightarrow> inserted_at qs i = []"
  by (induction qs) (simp_all add: inserted_at_def)

lemma weave_from_skip:
  "list_all (\<lambda>q. i + int m \<le> index q) qs \<Longrightarrow> m \<le> length cs \<Longrightarrow>
   weave_from i cs qs = take m cs @ weave_from (i + int m) (drop m cs) qs"
proof (induction m arbitrary: i cs)
  case 0
  then show ?case by simp
next
  case (Suc m)
  then obtain c cs' where cs: "cs = c # cs'" by (cases cs) simp_all
  have none: "inserted_at qs i = []"
    using Suc.prems(1) by (intro inserted_at_none) (auto simp: list_all_iff)
  have "weave_from (i + 1) cs' qs = take m cs' @ weave_from (i + 1 + int m) (drop m cs') qs"
    using Suc.prems by (intro Suc.IH) (simp_all add: cs algebra_simps)
  then show ?case by (simp add: cs none algebra_simps)
qed

lemma weave_from_later:
  "index p < i \<Longrightarrow> weave_from i cs (qs @ [p]) = weave_from i cs qs"
  by (induction cs arbitrary: i) (simp_all add: inserted_at_def)

lemma weave_from_here:
  "index p = i \<Longrightarrow> weave_from i cs (qs @ [p]) = ptext p @ weave_from i cs qs"
  by (cases cs) (simp_all add: inserted_at_def weave_from_later)

lemma fold_apply_weave:
  "sorted_wrt (\<lambda>p q. index q \<le> index p) qs \<Longrightarrow> list_all (in_range code) qs \<Longrightarrow>
   fold apply_patch qs code = weave code qs"
proof (induction qs rule: rev_induct)
  case Nil
  have "weave_from i cs [] = cs" for i cs
    by (induction cs arbitrary: i) (simp_all add: inserted_at_def)
  then show ?case by (simp add: weave_def)
next
  case (snoc p qs)
  let ?k = "nat (index p)"
  have range: "0 \<le> index p" "index p \<le> int (length code)"
    using snoc.prems(2) by (simp_all add: in_range_def)
  have above: "list_all (\<lambda>q. index p \<le> index q) qs"
    using snoc.prems(1) by (auto simp: sorted_wrt_append list_all_iff)
  have sorted: "sorted_wrt (\<lambda>p q. index q \<le> index p) qs"
    using snoc.prems(1) by (simp add: sorted_wrt_append)
  have ih: "fold apply_patch qs code = weave code qs"
    using snoc.IH sorted snoc.prems(2) by simp
  have split: "weave code qs = take ?k code @ weave_from (index p) (drop ?k code) qs"
    unfolding weave_def using weave_from_skip[of 0 ?k qs code] above range by simp
  have len: "length (take ?k code) = ?k" using range by simp
  have rel: "rel_index (index p) (length (weave code qs)) = ?k"
    unfolding split using range by (simp add: rel_index_def)
  have "fold apply_patch (qs @ [p]) code = apply_patch p (weave code qs)"
    by (simp add: ih)
  also have "\<dots> = take ?k (weave code qs) @ ptext p @ drop ?k (weave code qs)"
    by (simp only: apply_patch_eq rel)
  also have "\<dots> = take ?k code @ ptext p @ weave_from (index p) (drop ?k code) qs"
    unfolding split using len by simp
  also have "\<dots> = take ?k code @ weave_from (index p) (drop ?k code) (qs @ [p])"
    by (simp add: weave_from_here)
  also have "\<dots> = weave code (qs @ [p])"
  proof -
    have "list_all (\<lambda>q. index p \<le> index q) (qs @ [p])" using above by simp
    then show ?thesis
      unfolding weave_def using weave_from_skip[of 0 ?k "qs @ [p]" code] range by simp
  qed
  finally show ?case .
qed

lemma weave_sort_patches: "weave code (sort_patches ps) = weave code ps"
proof -
  have "weave_from i cs (sort_patches ps) = weave_from i cs ps" for i cs
    by (induction cs arbitrary: i) (simp_all add: inserted_at_def sort_patches_stable)
  then show ?thesis by (simp add: weave_def)
qed

lemma apply_patches_weave:
  assumes "list_all (in_range code) ps"
  shows "apply_patches ps code = weave code ps"
proof -
  have "set (sort_patches ps) = set ps" by (simp add: sort_patches_def)
  then have "list_all (in_range code) (sort_patches ps)"
    using assms by (simp add: list_all_iff)
  then have "fold apply_patch (sort_patches ps) code = weave code (sort_patches ps)"
    by (intro fold_apply_weave sort_patches_descending)
  then show ?thesis by (simp add: apply_patches_def weave_sort_patches)
qed

lemma tie_walk:
  "walk tie_source tie_tree None initial_wstate = Inr \<lparr>patches = tie_patches, scopeStack = [[]]\<rparr>"
  by code_simp

lemma tie_weave: "weave tie_source tie_patches = tie_text"
  by code_simp

text \<open>
  Claim C9. The text that \<open>instrumentCode\<close> returns is the source after the splices
  \<open>slice(0, i) + text + slice(i)\<close> of the patches that the traversal registered, applied
  in descending order of their offsets, those of one offset in the order of their
  registration (the sort is stable). The source is a subsequence of the result. No offset
  is invalidated by an earlier splice: when the offsets lie within the source, as those of
  a parser's tree do, the text of every patch stands in the result at its recorded offset
  of the source.
\<close>

theorem instrumentCode_inserts_only:
  assumes "instrumentCode parse code = Inr out"
  shows "\<exists>ast st. parse code = Inr ast \<and> walk code ast None initial_wstate = Inr st \<and>
           out = fold apply_patch (sort_patches (patches st)) code \<and>
           sorted_wrt (\<lambda>p q. index q \<le> index p) (sort_patches (patches st)) \<and>
           (\<forall>i. filter (\<lambda>p. index p = i) (sort_patches (patches st)) =
                filter (\<lambda>p. index p = i) (patches st)) \<and>
           subseq code out \<and>
           (list_all (in_range code) (patches st) \<longrightarrow> out = weave code (patches st))"
proof -
  from assms obtain ast where ast: "parse code = Inr ast"
    by (cases "parse code") (simp_all add: instrumentCode_def)
  from assms ast obtain st where st: "walk code ast None initial_wstate = Inr st"
    by (cases "walk code ast None initial_wstate") (simp_all add: instrumentCode_def)
  have out: "out = apply_patches (patches st) code"
    using assms ast st by (simp add: instrumentCode_def)
  have "out = fold apply_patch (sort_patches (patches st)) code"
    by (simp add: out apply_patches_def)
  moreover have "list_all (in_range code) (patches st) \<longrightarrow> out = weave code (patches st)"
    by (simp add: out apply_patches_weave)
  ultimately show ?thesis
    using ast st instrumentCode_subseq[OF assms] sort_patches_descending sort_patches_stable
    by blast
qed

theorem instrumentCode_inserts_only_witness:
  "instrumentCode (\<lambda>c. Inr tie_tree) tie_source = Inr tie_text \<and>
   walk tie_source tie_tree None initial_wstate = Inr \<lparr>patches = tie_patches, scopeStack = [[]]\<rparr> \<and>
   sort_patches tie_patches = [tie_patches ! 1, tie_patches ! 3, tie_patches ! 0, tie_patches ! 2] \<and>
   tie_text = fold apply_patch (sort_patches tie_patches) tie_source \<and>
   subseq tie_source tie_text \<and>
   list_all (in_range tie_source) tie_patches \<and>
   tie_text = weave tie_source tie_patches"
proof -
  have i: "instrumentCode (\<lambda>c. Inr tie_tree) tie_source = Inr tie_text"
    by code_simp
  have r: "list_all (in_range tie_source) tie_patches"
    by (simp add: in_range_def tie_patches_def tie_source_def)
  have s: "sort_patches tie_patches =
           [tie_patches ! 1, tie_patches ! 3, tie_patches ! 0, tie_patches ! 2]"
    by (simp add: sort_patches_def tie_patches_def)
  from instrumentCode_inserts_only[OF i] obtain ast st where
    a: "(\<lambda>c. Inr tie_tree) tie_source = (Inr ast :: exn + node)" and
    w: "walk tie_source ast None initial_wstate = Inr st" and
    f: "tie_text = fold apply_patch (sort_patches (patches st)) tie_source" and
    q: "subseq tie_source tie_text" and
    v: "list_all (in_range tie_source) (patches st) \<longrightarrow> tie_text = weave tie_source (patches st)"
    by blast
  have "ast = tie_tree" using a by simp
  then have "st = \<lparr>patches = tie_patches, scopeStack = [[]]\<rparr>"
    using w tie_walk by simp
  then have p: "patches st = tie_patches" by simp
  show ?thesis
    using i tie_walk s f q r v unfolding p by simp
qed

section \<open>The loop guard\<close>

lemma run_replicate_CheckLoop: "run (replicate k CheckLoop) s = s"
  by (induction k) (simp_all add: run_Cons)

lemma forever_instrumented: "instrumentCode forever_parse forever_source = Inr forever_text"
  by code_simp

section \<open>The Python loop\<close>







text \<open>
  C2. The loop guard does not stop a loop with an empty body. \<open>while(true){}\<close> is
  instrumented with the guard alone, so the only call an iteration makes is
  \<open>checkLoop\<close>; that call leaves the tracer as it found it, \<open>stepCount\<close> included,
  and answers \<open>false\<close> however many times it is made: the \<open>break\<close> is never taken and
  no step is ever recorded.
\<close>

theorem empty_loop_guard_never_fires:
  "instrumentCode forever_parse forever_source = Inr forever_text \<and>
   run (replicate k CheckLoop) initial_state = initial_state \<and>
   \<not> tracer_checkLoop (run (replicate k CheckLoop) initial_state) \<and>
   timeline (run (replicate k CheckLoop) initial_state) = []"
  by (simp add: forever_instrumented run_replicate_CheckLoop tracer_checkLoop_def
      initial_state_def MAX_STEPS_def)



section \<open>Function entry and exit\<close>

lemma noop_instrumented: "instrumentCode noop_parse noop_source = Inr noop_text"
  by code_simp

lemma noop_try_block:
  "try_block (\<lambda>c. Inr c) (\<lambda>c. Inr c) noop_parse noop_run noop_source ''javascript'' =
     Some ([], Threw (ExnValue (Some noop_message)))"
  by (simp add: try_block_def codeToInstrument_def noop_instrumented noop_run_def known_run_def)

text \<open>
  C5. A function whose body is \<open>{}\<close> has \<open>body.start + 1 = body.end - 1\<close>: the patch
  of the entry and the patch of the exit are registered at the same offset, and the
  second is inserted in front of the first. The instrumented text of \<open>function f(){}\<close>
  has the \<open>finally\<close> clause before the \<open>try\<close>, with \<open>__tracer.enter\<close> after the
  exit; it is not a program, and the run resolves with a single error step.
\<close>

theorem empty_function_body_instrumented:
  "(case walk noop_source noop_tree None initial_wstate of
      Inl e \<Rightarrow> Inl e | Inr st \<Rightarrow> Inr (patches st)) =
     (Inr [Patch 13 '' __tracer.enter(\"f\"); try { '',
           Patch 13 '' } finally { __tracer.exit(); } ''] :: exn + Patch list) \<and>
   instrumentCode noop_parse noop_source =
     Inr ''function f(){ } finally { __tracer.exit(); }  __tracer.enter(\"f\"); try { }'' \<and>
   executeCode (\<lambda>c. Inr c) (\<lambda>c. Inr c) noop_parse noop_run noop_source ''javascript'' =
     Some (Resolved
       [\<lparr>line = 0, variables = JObj [], callStack = [''main''],
          consoleOutput =
            [\<lparr>ltype = Terror, message = ''Runtime Error: '' @ noop_message @ '' ''\<rparr>],
          isError = Some True, errorMessage = Some noop_message\<rparr>])"
proof -
  have w: "(case walk noop_source noop_tree None initial_wstate of
              Inl e \<Rightarrow> Inl e | Inr st \<Rightarrow> Inr (patches st)) =
           (Inr [Patch 13 '' __tracer.enter(\"f\"); try { '',
                 Patch 13 '' } finally { __tracer.exit(); } ''] :: exn + Patch list)"
    by code_simp
  have e: "executeCode (\<lambda>c. Inr c) (\<lambda>c. Inr c) noop_parse noop_run noop_source ''javascript'' =
     Some (Resolved
       [\<lparr>line = 0, variables = JObj [], callStack = [''main''],
          consoleOutput =
            [\<lparr>ltype = Terror, message = ''Runtime Error: '' @ noop_message @ '' ''\<rparr>],
          isError = Some True, errorMessage = Some noop_message\<rparr>])"
    unfolding executeCode_def noop_try_block
    by (simp add: on_error_def initial_state_def message_text_def)
  show ?thesis
    using w e noop_instrumented by (simp add: noop_text_def)
qed

end
